theory Spec2Isabelle
  imports Complex_Main
begin

section \<open>JavaScript values used by App.jsx\<close>

text \<open>
  The editor of \<^verbatim>\<open>src/src/App.jsx\<close> is a React component over three collaborators:
  Fabric.js (the editing surface), pdf.js (decoding) and pdf-lib (writing). The component's
  own code is embedded here; what a collaborator returns is a parameter.

  JavaScript numbers that are measured lengths (page sizes, bounding rectangles, offsets)
  are \<^typ>\<open>real\<close>; counters, indices, rotations and slider values are \<^typ>\<open>int\<close> or
  \<^typ>\<open>nat\<close>. \<^verbatim>\<open>undefined\<close> and \<^verbatim>\<open>null\<close> are \<open>None\<close>.
\<close>

text \<open>The remainder operator \<^verbatim>\<open>a % b\<close>: the sign of the result follows the dividend.\<close>

definition js_rem :: "int \<Rightarrow> int \<Rightarrow> int" where
  "js_rem a b = (if a < 0 then - ((- a) mod \<bar>b\<bar>) else a mod \<bar>b\<bar>)"

text \<open>Array indexing \<^verbatim>\<open>xs[i]\<close>: \<^verbatim>\<open>undefined\<close> outside the array, also at \<open>-1\<close>.\<close>

definition nth_opt :: "'a list \<Rightarrow> int \<Rightarrow> 'a option" where
  "nth_opt xs i = (if 0 \<le> i \<and> i < int (length xs) then Some (xs ! nat i) else None)"

text \<open>Truthiness of a string-or-null property such as \<^verbatim>\<open>obj.stroke\<close>.\<close>

definition truthy :: "string option \<Rightarrow> bool" where
  "truthy s = (case s of None \<Rightarrow> False | Some t \<Rightarrow> t \<noteq> [])"

section \<open>Data model\<close>

record rect =
  rleft :: real
  rtop :: real
  rwidth :: real
  rheight :: real

text \<open>
  The pixel content of an image object (Fabric's element): the blank canvas a mosaic is
  created with, an uploaded picture, or the result of a bake
  (captured region, \<open>smallW\<close>, \<open>smallH\<close>, final width, final height). Shapes and text have
  none.
\<close>

datatype pixels =
  Blank real real
  | Picture string
  | Baked rect int int real real

record scene_object =
  otype :: string
  oleft :: real
  otop :: real
  owidth :: real
  oheight :: real
  fill :: "string option"
  stroke :: "string option"
  strokeWidth :: int
  opacity :: real
  fontSize :: int
  isMosaic :: bool
  mosaicSize :: "int option"
  visible :: bool
  element :: "pixels option"

text \<open>\<^verbatim>\<open>canvas.getActiveObject()\<close>: nothing, one object, or an \<^verbatim>\<open>activeSelection\<close>.\<close>

datatype active_object =
  NoActive
  | ActiveObject nat
  | ActiveSelection "nat list"

text \<open>
  Objects are mutable and shared between the surface, the selection and pending callbacks,
  so the surface holds references (addresses into the heap of the application state), in
  z-order.
\<close>

record canvas =
  cwidth :: real
  cheight :: real
  objects :: "nat list"
  active :: active_object
  backgroundImage :: "string option"

record 'doc page =
  pid :: string
  pdfBytes :: "string option"
  pageNum :: nat
  thumb :: "string option"
  fabricData :: "'doc option"
  pwidth :: real
  pheight :: real
  rotation :: int

record properties =
  color :: string
  popacity :: real
  psize :: int

text \<open>An image load in flight: the object to write to and the region that was captured.\<close>

record pending_load =
  target :: nat
  captured :: rect

text \<open>
  The component's state. \<open>snapshots\<close> is an observer, not a variable of the program: it
  counts how often the updater of \<^verbatim>\<open>saveCurrentState\<close> returned a new page array.
\<close>

record 'doc app_state =
  pages :: "'doc page list"
  currentIndex :: int
  props :: properties
  fabricCanvas :: "canvas option"
  heap :: "nat \<Rightarrow> scene_object"
  isUpdating :: bool
  draggedIndex :: "nat option"
  dropTargetIndex :: "nat option"
  pendingLoads :: "pending_load list"
  snapshots :: nat

text \<open>
  The two Fabric.js calls whose results the component's control flow depends on:
  \<^verbatim>\<open>canvas.toJSON([...])\<close> and \<^verbatim>\<open>obj.getBoundingRect(true)\<close>.
\<close>

record 'doc fabric =
  toJSON :: "canvas \<Rightarrow> (nat \<Rightarrow> scene_object) \<Rightarrow> 'doc"
  getBoundingRect :: "scene_object \<Rightarrow> rect"

section \<open>Saving the scene of the active page\<close>

text \<open>
  The function passed to \<^verbatim>\<open>setPages\<close> by \<^verbatim>\<open>saveCurrentState\<close>. It runs later, on the page
  list of that moment; \<open>None\<close> is \<^verbatim>\<open>return prev\<close> (no write).
\<close>

definition saveUpdater :: "int \<Rightarrow> string \<Rightarrow> 'doc \<Rightarrow> 'doc page list \<Rightarrow> 'doc page list option" where
  "saveUpdater idx currentPageId json prev =
     (case nth_opt prev idx of
        None \<Rightarrow> None
      | Some p \<Rightarrow>
          if pid p = currentPageId
          then (if fabricData p = Some json then None
                else Some (prev[nat idx := p\<lparr>fabricData := Some json\<rparr>]))
          else None)"

definition saveCurrentState :: "'doc fabric \<Rightarrow> 'doc app_state \<Rightarrow> 'doc app_state" where
  "saveCurrentState fab st =
     (case fabricCanvas st of
        None \<Rightarrow> st
      | Some c \<Rightarrow>
          if currentIndex st = - 1 then st
          else if isUpdating st then st
          else (case nth_opt (pages st) (currentIndex st) of
                  None \<Rightarrow> st
                | Some pg \<Rightarrow>
                    if pid pg = [] then st
                    else (case saveUpdater (currentIndex st) (pid pg)
                                 (toJSON fab c (heap st)) (pages st) of
                            None \<Rightarrow> st
                          | Some newPages \<Rightarrow>
                              st\<lparr>pages := newPages, snapshots := Suc (snapshots st)\<rparr>)))"

section \<open>Mosaic bake\<close>

text \<open>\<^verbatim>\<open>obj.mosaicSize || 10\<close>\<close>

definition mosaicSizeOr10 :: "int option \<Rightarrow> int" where
  "mosaicSizeOr10 m = (case m of None \<Rightarrow> 10 | Some b \<Rightarrow> if b = 0 then 10 else b)"

text \<open>The size of the temporary canvas in \<^verbatim>\<open>img.onload\<close> of \<^verbatim>\<open>updateMosaicContent\<close>.\<close>

definition liveSmallDims :: "rect \<Rightarrow> scene_object \<Rightarrow> int \<times> int" where
  "liveSmallDims r obj =
     (let msize = mosaicSizeOr10 (mosaicSize obj);
          w = rwidth r;
          h = rheight r;
          smallW = max 1 \<lfloor>w / real_of_int msize\<rfloor>;
          smallH = max 1 \<lfloor>h / real_of_int msize\<rfloor>
      in (smallW, smallH))"


text \<open>
  \<^verbatim>\<open>updateMosaicContent(obj)\<close> up to the point where the captured image starts loading: the
  object hides itself, the region is measured, and either the call returns (degenerate
  region) or the capture is taken and its load is pending.
\<close>

definition updateMosaicContent :: "'doc fabric \<Rightarrow> nat \<Rightarrow> 'doc app_state \<Rightarrow> 'doc app_state" where
  "updateMosaicContent fab r st =
     (case fabricCanvas st of
        None \<Rightarrow> st
      | Some c \<Rightarrow>
          if isMosaic (heap st r)
          then (let originalVisible = visible (heap st r);
                    hidden = (heap st)(r := (heap st r)\<lparr>visible := False\<rparr>);
                    bounds = getBoundingRect fab (hidden r);
                    restored = hidden(r := (hidden r)\<lparr>visible := originalVisible\<rparr>)
                in if rwidth bounds \<le> 0 \<or> rheight bounds \<le> 0
                   then st\<lparr>heap := restored\<rparr>
                   else st\<lparr>heap := restored,
                          pendingLoads := pendingLoads st @ [\<lparr>target = r, captured = bounds\<rparr>]\<rparr>)
          else st)"

text \<open>The body of \<^verbatim>\<open>img.onload\<close> in \<^verbatim>\<open>updateMosaicContent\<close>.\<close>

definition imgOnload :: "pending_load \<Rightarrow> 'doc app_state \<Rightarrow> 'doc app_state" where
  "imgOnload p st =
     (let obj = heap st (target p);
          (smallW, smallH) = liveSmallDims (captured p) obj;
          finalCanvas = Baked (captured p) smallW smallH (rwidth (captured p)) (rheight (captured p))
      in st\<lparr>heap := (heap st)(target p := obj\<lparr>element := Some finalCanvas\<rparr>)\<rparr>)"




section \<open>Style edits on the selection\<close>

text \<open>
  \<^verbatim>\<open>updateSelectedObject(key, value)\<close> is called with the keys \<^verbatim>\<open>color\<close>, \<^verbatim>\<open>opacity\<close> and
  \<^verbatim>\<open>size\<close>; the constructor carries the value as the branch uses it
  (the string, \<^verbatim>\<open>parseFloat(value)\<close>, \<^verbatim>\<open>parseInt(value)\<close>).
\<close>

datatype style_edit =
  Color string
  | Opacity real
  | Size int

fun setProperty :: "style_edit \<Rightarrow> properties \<Rightarrow> properties" where
  "setProperty (Color v) p = p\<lparr>color := v\<rparr>"
| "setProperty (Opacity v) p = p\<lparr>popacity := v\<rparr>"
| "setProperty (Size v) p = p\<lparr>psize := v\<rparr>"

text \<open>The three assignments of the \<^verbatim>\<open>color\<close> branch, in order.\<close>

definition setColor :: "string \<Rightarrow> scene_object \<Rightarrow> scene_object" where
  "setColor v obj =
     (let o1 = (if fill obj \<noteq> Some ''transparent'' \<and> \<not> isMosaic obj \<and> otype obj \<noteq> ''image''
                then obj\<lparr>fill := Some v\<rparr> else obj);
          o2 = (if truthy (stroke o1) \<and> stroke o1 \<noteq> Some ''transparent''
                then o1\<lparr>stroke := Some v\<rparr> else o1);
          o3 = (if otype o2 = ''i-text'' then o2\<lparr>fill := Some v\<rparr> else o2)
      in o3)"

text \<open>The body of \<^verbatim>\<open>objects.forEach\<close> for the object at address \<open>r\<close>.\<close>

fun applyStyle :: "'doc fabric \<Rightarrow> style_edit \<Rightarrow> nat \<Rightarrow> 'doc app_state \<Rightarrow> 'doc app_state" where
  "applyStyle fab (Color v) r st = st\<lparr>heap := (heap st)(r := setColor v (heap st r))\<rparr>"
| "applyStyle fab (Opacity v) r st = st\<lparr>heap := (heap st)(r := (heap st r)\<lparr>opacity := v\<rparr>)\<rparr>"
| "applyStyle fab (Size val) r st =
     (if isMosaic (heap st r)
      then updateMosaicContent fab r
             (st\<lparr>heap := (heap st)(r := (heap st r)\<lparr>mosaicSize := Some val\<rparr>)\<rparr>)
      else if otype (heap st r) = ''i-text''
      then st\<lparr>heap := (heap st)(r := (heap st r)\<lparr>fontSize := val * 4\<rparr>)\<rparr>
      else if truthy (stroke (heap st r))
      then st\<lparr>heap := (heap st)(r := (heap st r)\<lparr>strokeWidth := val\<rparr>)\<rparr>
      else st)"

fun selectedObjects :: "active_object \<Rightarrow> nat list option" where
  "selectedObjects NoActive = None"
| "selectedObjects (ActiveObject r) = Some [r]"
| "selectedObjects (ActiveSelection rs) = Some rs"

definition updateSelectedObject :: "'doc fabric \<Rightarrow> style_edit \<Rightarrow> 'doc app_state \<Rightarrow> 'doc app_state" where
  "updateSelectedObject fab e st =
     (let st1 = st\<lparr>props := setProperty e (props st)\<rparr>
      in case fabricCanvas st1 of
           None \<Rightarrow> st1
         | Some c \<Rightarrow>
             (case selectedObjects (active c) of
                None \<Rightarrow> st1
              | Some objs \<Rightarrow> saveCurrentState fab (fold (applyStyle fab e) objs st1)))"

section \<open>Page list\<close>

text \<open>
  \<^verbatim>\<open>splice(i, 1)[0]\<close> and \<^verbatim>\<open>splice(i, 0, item)\<close> for an index \<open>i \<ge> 0\<close>. Removing past the end
  removes nothing and yields \<^verbatim>\<open>undefined\<close>; inserting past the end appends.
\<close>

definition spliceOut :: "nat \<Rightarrow> 'a list \<Rightarrow> 'a option \<times> 'a list" where
  "spliceOut i xs =
     (if i < length xs then (Some (xs ! i), take i xs @ drop (Suc i) xs) else (None, xs))"

definition spliceIn :: "nat \<Rightarrow> 'a \<Rightarrow> 'a list \<Rightarrow> 'a list" where
  "spliceIn i x xs = take i xs @ x # drop i xs"

text \<open>
  The two splices of both reorder paths. \<open>None\<close>: the array would now hold \<^verbatim>\<open>undefined\<close>
  in place of a page (the next render fails on \<^verbatim>\<open>page.id\<close>).
\<close>

definition reorderPages :: "nat \<Rightarrow> nat \<Rightarrow> 'a list \<Rightarrow> 'a list option" where
  "reorderPages fromIndex toIndex xs =
     (case spliceOut fromIndex xs of
        (None, rest) \<Rightarrow> None
      | (Some item, rest) \<Rightarrow> Some (spliceIn toIndex item rest))"

definition movePage :: "'doc fabric \<Rightarrow> nat \<Rightarrow> int \<Rightarrow> 'doc app_state \<Rightarrow> 'doc app_state option" where
  "movePage fab fromIndex direction st =
     (let st1 = saveCurrentState fab st;
          toIndex = int fromIndex + direction
      in if toIndex < 0 \<or> int (length (pages st)) \<le> toIndex then Some st1
         else (case reorderPages fromIndex (nat toIndex) (pages st1) of
                 None \<Rightarrow> None
               | Some newPages \<Rightarrow>
                   Some (st1\<lparr>pages := newPages,
                             currentIndex :=
                               (if currentIndex st = int fromIndex then toIndex
                                else if currentIndex st = toIndex then int fromIndex
                                else currentIndex st)\<rparr>)))"

text \<open>\<^verbatim>\<open>onDrop\<close> of the page at index \<open>idx\<close> of the page list.\<close>

definition onDrop :: "nat \<Rightarrow> 'doc app_state \<Rightarrow> 'doc app_state option" where
  "onDrop idx st =
     (case draggedIndex st of
        None \<Rightarrow> Some st
      | Some d \<Rightarrow>
          (case reorderPages d idx (pages st) of
             None \<Rightarrow> None
           | Some newPages \<Rightarrow>
               Some (st\<lparr>pages := newPages, draggedIndex := None, dropTargetIndex := None\<rparr>)))"

text \<open>The delete button: \<^verbatim>\<open>setPages(p => p.filter((_, i) => i !== idx))\<close>.\<close>

definition removePage :: "nat \<Rightarrow> 'doc app_state \<Rightarrow> 'doc app_state" where
  "removePage idx st =
     st\<lparr>pages := map snd (filter (\<lambda>(i, pg). i \<noteq> idx) (enumerate 0 (pages st)))\<rparr>"

text \<open>The rotate button.\<close>

definition rotatePage :: "nat \<Rightarrow> 'doc app_state \<Rightarrow> 'doc app_state" where
  "rotatePage idx st =
     st\<lparr>pages := map (\<lambda>(i, pg). if i = idx
                                  then pg\<lparr>rotation := js_rem (rotation pg + 90) 360\<rparr>
                                  else pg)
                    (enumerate 0 (pages st))\<rparr>"

section \<open>Loading a page onto the editing surface\<close>

definition pageLoadDims :: "'doc page \<Rightarrow> real \<times> real" where
  "pageLoadDims page =
     (let isRotated = (js_rem (rotation page) 180 \<noteq> 0);
          cw = (if isRotated then pheight page else pwidth page);
          ch = (if isRotated then pwidth page else pheight page)
      in (cw, ch))"

text \<open>
  The synchronous part of the page-load effect: the guard, the flag, the resize and
  \<^verbatim>\<open>clear()\<close>. Background and objects arrive in later callbacks.
\<close>

definition pageLoadEffect :: "'doc app_state \<Rightarrow> 'doc app_state" where
  "pageLoadEffect st =
     (case nth_opt (pages st) (currentIndex st) of
        None \<Rightarrow> st
      | Some page \<Rightarrow>
          (case fabricCanvas st of
             None \<Rightarrow> st
           | Some c \<Rightarrow>
               (let (cw, ch) = pageLoadDims page
                in st\<lparr>isUpdating := True,
                      fabricCanvas := Some (c\<lparr>cwidth := cw, cheight := ch, objects := [],
                                              active := NoActive, backgroundImage := None\<rparr>)\<rparr>)))"

section \<open>Export\<close>

text \<open>
  A page of the output document as the export loop sees it: the angle of
  \<^verbatim>\<open>getRotation()\<close> and the \<^verbatim>\<open>drawImage\<close> calls made on it. What \<^verbatim>\<open>getSize()\<close> reports is
  pdf-lib's answer and is a parameter of the export step.
\<close>

record draw_options =
  dx :: real
  dy :: real
  dwidth :: real
  dheight :: real
  drotate :: "int option"

record pdf_page =
  angle :: int
  drawn :: "draw_options list"

definition exportSetRotation :: "'doc page \<Rightarrow> pdf_page \<Rightarrow> pdf_page" where
  "exportSetRotation pageData pdfPage =
     (let currentRot = angle pdfPage
      in pdfPage\<lparr>angle := currentRot + rotation pageData\<rparr>)"

definition exportOverlayDims :: "'doc page \<Rightarrow> real \<times> real" where
  "exportOverlayDims pageData =
     (let isRotated = (js_rem (rotation pageData) 180 \<noteq> 0);
          fabricWidth = (if isRotated then pheight pageData else pwidth pageData);
          fabricHeight = (if isRotated then pwidth pageData else pheight pageData)
      in (fabricWidth, fabricHeight))"

text \<open>The options of the \<^verbatim>\<open>drawImage\<close> call.\<close>

definition drawOverlay :: "'doc page \<Rightarrow> real \<Rightarrow> real \<Rightarrow> draw_options" where
  "drawOverlay pageData pdfWidth pdfHeight =
     (if rotation pageData = 0
      then \<lparr>dx = 0, dy = 0, dwidth = pdfWidth, dheight = pdfHeight, drotate = None\<rparr>
      else (let isRotated = (js_rem (rotation pageData) 180 \<noteq> 0);
                drawW = (if isRotated then pdfHeight else pdfWidth);
                drawH = (if isRotated then pdfWidth else pdfHeight);
                rot = js_rem (rotation pageData) 360;
                (x, y) = (if rot = 90 then (pdfWidth, 0)
                          else if rot = 180 then (pdfWidth, pdfHeight)
                          else if rot = 270 then (0, pdfHeight)
                          else (0, 0))
            in \<lparr>dx = x, dy = y, dwidth = drawW, dheight = drawH, drotate = Some rot\<rparr>))"

text \<open>
  One iteration of the export loop on the output page, given the data URL of the
  rasterized overlay: rotation first, then the size is read, then the overlay is drawn
  unless the raster is empty.
\<close>

definition exportPage ::
  "'doc page \<Rightarrow> string \<Rightarrow> (pdf_page \<Rightarrow> real \<times> real) \<Rightarrow> pdf_page \<Rightarrow> pdf_page" where
  "exportPage pageData dataUrl getSize pdfPage0 =
     (let pdfPage = exportSetRotation pageData pdfPage0;
          (pdfWidth, pdfHeight) = getSize pdfPage
      in if dataUrl = ''data:,'' then pdfPage
         else pdfPage\<lparr>drawn := drawn pdfPage @ [drawOverlay pageData pdfWidth pdfHeight]\<rparr>)"

section \<open>Creating pages and objects\<close>

text \<open>The initial tool properties (\<^verbatim>\<open>useState\<close>).\<close>

definition initialProperties :: properties where
  "initialProperties = \<lparr>color = ''#ef4444'', popacity = 1, psize = 5\<rparr>"

text \<open>
  The page record built by \<^verbatim>\<open>addBlankPage\<close>; the random id and the data URL of the white
  raster are parameters.
\<close>

definition blankPage :: "string \<Rightarrow> string \<Rightarrow> 'doc page" where
  "blankPage newId dataUrl =
     \<lparr>pid = newId, pdfBytes = None, pageNum = 0, thumb = Some dataUrl, fabricData = None,
      pwidth = 1240, pheight = 1754, rotation = 0\<rparr>"

text \<open>A Fabric object before the options of \<^verbatim>\<open>addShape\<close> are applied (Fabric's defaults).\<close>

definition fabricObject :: "string \<Rightarrow> scene_object" where
  "fabricObject t =
     \<lparr>otype = t, oleft = 0, otop = 0, owidth = 0, oheight = 0, fill = Some ''rgb(0,0,0)'',
      stroke = None, strokeWidth = 1, opacity = 1, fontSize = 40, isMosaic = False,
      mosaicSize = None, visible = True, element = None\<rparr>"

text \<open>
  The object built by the \<^verbatim>\<open>switch\<close> of \<^verbatim>\<open>addShape(type)\<close>, centred at \<open>(cx, cy)\<close>;
  \<open>None\<close> is the \<^verbatim>\<open>default: return\<close>.
\<close>

definition makeShape :: "string \<Rightarrow> properties \<Rightarrow> real \<Rightarrow> real \<Rightarrow> scene_object option" where
  "makeShape t p cx cy =
     (if t = ''rect''
      then Some ((fabricObject ''rect'')
             \<lparr>oleft := cx, otop := cy, opacity := popacity p,
              fill := Some (color p), owidth := 200, oheight := 200\<rparr>)
      else if t = ''rect-outline''
      then Some ((fabricObject ''rect'')
             \<lparr>oleft := cx, otop := cy, opacity := popacity p,
              fill := Some ''transparent'', stroke := Some (color p), strokeWidth := psize p,
              owidth := 200, oheight := 200\<rparr>)
      else if t = ''arrow''
      then Some ((fabricObject ''path'')
             \<lparr>oleft := cx, otop := cy, opacity := popacity p,
              stroke := Some (color p), strokeWidth := psize p, fill := Some ''transparent'',
              owidth := 200, oheight := 200\<rparr>)
      else if t = ''text''
      then Some ((fabricObject ''i-text'')
             \<lparr>oleft := cx, otop := cy, opacity := popacity p,
              fill := Some (color p), fontSize := psize p * 4\<rparr>)
      else if t = ''mosaic''
      then Some ((fabricObject ''image'')
             \<lparr>oleft := cx, otop := cy, opacity := popacity p,
              owidth := 200, oheight := 120, isMosaic := True, mosaicSize := Some (psize p),
              stroke := Some ''#3b82f6'', strokeWidth := 2, fill := Some ''transparent'',
              element := Some (Blank 200 120)\<rparr>)
      else None)"

section \<open>Concrete collaborators and states for the closed examples\<close>

text \<open>
  A stand-in for Fabric in the examples: the bounding rectangle of an unrotated, unscaled
  object with centre origin, which takes in the stroke width on both axes whether or not
  a stroke colour is set (the new mosaic of 200 x 120 with stroke width 2 measures
  202 x 122 at (519, 816)), and a serializer that lists the objects of the surface in
  z-order.
\<close>

definition strokeBox :: "scene_object \<Rightarrow> rect" where
  "strokeBox obj =
     (let w = owidth obj + real_of_int (strokeWidth obj);
          h = oheight obj + real_of_int (strokeWidth obj)
      in \<lparr>rleft = oleft obj - w / 2, rtop = otop obj - h / 2, rwidth = w, rheight = h\<rparr>)"

definition listObjects :: "canvas \<Rightarrow> (nat \<Rightarrow> scene_object) \<Rightarrow> scene_object list" where
  "listObjects c h = map h (objects c)"

definition exampleFabric :: "(scene_object list) fabric" where
  "exampleFabric = \<lparr>toJSON = listObjects, getBoundingRect = strokeBox\<rparr>"

definition emptyHeap :: "nat \<Rightarrow> scene_object" where
  "emptyHeap r = fabricObject ''rect''"

text \<open>A filled rectangle and a mosaic as \<^verbatim>\<open>addShape\<close> creates them with the initial properties.\<close>

definition redRect :: scene_object where
  "redRect =
     \<lparr>otype = ''rect'', oleft = 620, otop = 877, owidth = 200, oheight = 200,
      fill = Some ''#ef4444'', stroke = None, strokeWidth = 1, opacity = 1, fontSize = 40,
      isMosaic = False, mosaicSize = None, visible = True, element = None\<rparr>"

definition mosaicObject :: scene_object where
  "mosaicObject =
     \<lparr>otype = ''image'', oleft = 620, otop = 877, owidth = 200, oheight = 120,
      fill = Some ''transparent'', stroke = Some ''#3b82f6'', strokeWidth = 2, opacity = 1,
      fontSize = 40, isMosaic = True, mosaicSize = Some 5, visible = True,
      element = Some (Blank 200 120)\<rparr>"

definition pageSurface :: canvas where
  "pageSurface =
     \<lparr>cwidth = 1240, cheight = 1754, objects = [], active = NoActive,
      backgroundImage = Some ''data:image/png''\<rparr>"

text \<open>Three blank pages A, B, C; A is active and is being dragged onto the slot of C.\<close>

definition threePages :: "(scene_object list) app_state" where
  "threePages =
     \<lparr>pages = [blankPage ''A'' ''data:image/png'', blankPage ''B'' ''data:image/png'',
               blankPage ''C'' ''data:image/png''],
      currentIndex = 0, props = initialProperties, fabricCanvas = Some pageSurface,
      heap = emptyHeap, isUpdating = False, draggedIndex = Some 0, dropTargetIndex = Some 2,
      pendingLoads = [], snapshots = 0\<rparr>"

text \<open>
  One page with three red rectangles of opacity \<open>1/2\<close>, all selected; the stored scene of the
  page is the serialization of the surface as it stands.
\<close>

definition halfRect :: scene_object where
  "halfRect = redRect\<lparr>opacity := 1 / 2\<rparr>"

definition threeSelected :: "(scene_object list) app_state" where
  "threeSelected =
     \<lparr>pages = [(blankPage ''A'' ''data:image/png'')
                 \<lparr>fabricData := Some [halfRect, halfRect, halfRect]\<rparr>],
      currentIndex = 0, props = initialProperties,
      fabricCanvas = Some (pageSurface\<lparr>objects := [1, 2, 3], active := ActiveSelection [1, 2, 3]\<rparr>),
      heap = emptyHeap(1 := halfRect, 2 := halfRect, 3 := halfRect),
      isUpdating = False, draggedIndex = None, dropTargetIndex = None,
      pendingLoads = [], snapshots = 0\<rparr>"

text \<open>
  A surface that has been cleared for another page while the mosaic at address 7, which
  was on the old page, is still referenced by a timer.
\<close>

definition staleMosaic :: "(scene_object list) app_state" where
  "staleMosaic =
     \<lparr>pages = [blankPage ''A'' ''data:image/png'', blankPage ''B'' ''data:image/png''],
      currentIndex = 1, props = initialProperties, fabricCanvas = Some pageSurface,
      heap = emptyHeap(7 := mosaicObject),
      isUpdating = False, draggedIndex = None, dropTargetIndex = None,
      pendingLoads = [], snapshots = 0\<rparr>"

text \<open>An output page whose \<^verbatim>\<open>getSize()\<close> is A4 in points, whatever its rotation.\<close>

definition sizeA4 :: "pdf_page \<Rightarrow> real \<times> real" where
  "sizeA4 p = (595, 842)"





section \<open>Geometry: the effective dimensions of a rotated page\<close>

lemma rotate_button_range:
  "r \<in> {0, 90, 180, 270} \<Longrightarrow> js_rem (r + 90) 360 \<in> {0, 90, 180, 270}"
  by (auto simp: js_rem_def)

text \<open>
  Claim C2. For a page of width \<open>w\<close>, height \<open>h\<close> and rotation \<open>r \<in> {0, 90, 180, 270}\<close>,
  the surface is sized \<open>(h, w)\<close> when \<open>r \<in> {90, 270}\<close> and \<open>(w, h)\<close> otherwise, and the
  page-load effect and the export loop compute the same pair (for every rotation).
\<close>

theorem effective_dimensions_swap:
  "exportOverlayDims pg = pageLoadDims pg \<and>
   (rotation pg \<in> {0, 90, 180, 270} \<longrightarrow>
      pageLoadDims pg = (if rotation pg \<in> {90, 270} then (pheight pg, pwidth pg)
                         else (pwidth pg, pheight pg)))"
  by (auto simp: exportOverlayDims_def pageLoadDims_def js_rem_def Let_def)

text \<open>A blank page turned once: 1240 x 1754 becomes 1754 x 1240 on both paths.\<close>

theorem effective_dimensions_swap_witness:
  "rotation ((blankPage ''A'' ''data:image/png'' :: unit page)\<lparr>rotation := 90\<rparr>)
     \<in> {0, 90, 180, 270}
   \<and> pageLoadDims ((blankPage ''A'' ''data:image/png'' :: unit page)\<lparr>rotation := 90\<rparr>)
       = (1754, 1240)
   \<and> exportOverlayDims ((blankPage ''A'' ''data:image/png'' :: unit page)\<lparr>rotation := 90\<rparr>)
       = (1754, 1240)"
  using effective_dimensions_swap
    [of "(blankPage ''A'' ''data:image/png'' :: unit page)\<lparr>rotation := 90\<rparr>"]
  by (simp add: blankPage_def)

section \<open>Export: rotation and placement of the overlay\<close>

text \<open>
  Claim C3. Let \<open>(pageOutW, pageOutH)\<close> be the size the output page reports after its
  rotation was set and before the draw call. When the overlay raster is not empty it is
  drawn once: for rotation 0 at \<open>(0, 0)\<close> with that width and height; for rotation 90,
  180, 270 rotated by that angle at \<open>(pageOutW, 0)\<close>, \<open>(pageOutW, pageOutH)\<close>,
  \<open>(0, pageOutH)\<close>, with the reported size swapped for 90 and 270.
\<close>

theorem export_overlay_placement:
  assumes "dataUrl \<noteq> ''data:,''"
    and "getSize (exportSetRotation pageData pdfPage) = (pageOutW, pageOutH)"
  shows "(rotation pageData = 0 \<longrightarrow>
            drawn (exportPage pageData dataUrl getSize pdfPage) =
              drawn pdfPage @ [\<lparr>dx = 0, dy = 0, dwidth = pageOutW, dheight = pageOutH,
                                drotate = None\<rparr>])
       \<and> (rotation pageData = 90 \<longrightarrow>
            drawn (exportPage pageData dataUrl getSize pdfPage) =
              drawn pdfPage @ [\<lparr>dx = pageOutW, dy = 0, dwidth = pageOutH, dheight = pageOutW,
                                drotate = Some 90\<rparr>])
       \<and> (rotation pageData = 180 \<longrightarrow>
            drawn (exportPage pageData dataUrl getSize pdfPage) =
              drawn pdfPage @ [\<lparr>dx = pageOutW, dy = pageOutH, dwidth = pageOutW,
                                dheight = pageOutH, drotate = Some 180\<rparr>])
       \<and> (rotation pageData = 270 \<longrightarrow>
            drawn (exportPage pageData dataUrl getSize pdfPage) =
              drawn pdfPage @ [\<lparr>dx = 0, dy = pageOutH, dwidth = pageOutH, dheight = pageOutW,
                                drotate = Some 270\<rparr>])"
proof -
  have kept: "drawn (exportSetRotation pageData pdfPage) = drawn pdfPage"
    by (simp add: exportSetRotation_def Let_def)
  have step: "exportPage pageData dataUrl getSize pdfPage =
      (exportSetRotation pageData pdfPage)
        \<lparr>drawn := drawn pdfPage @ [drawOverlay pageData pageOutW pageOutH]\<rparr>"
    unfolding exportPage_def Let_def assms(2) using assms(1) by (simp add: kept)
  show ?thesis
    unfolding step by (simp add: drawOverlay_def js_rem_def Let_def)
qed

text \<open>The scenario of the specification: a page turned by 90 degrees is drawn at \<open>(pageOutW, 0)\<close>.\<close>

theorem export_overlay_placement_witness:
  "''data:image/png;base64'' \<noteq> ''data:,''
   \<and> sizeA4 (exportSetRotation
                ((blankPage ''A'' ''data:image/png'' :: unit page)\<lparr>rotation := 90\<rparr>)
                \<lparr>angle = 0, drawn = []\<rparr>) = (595, 842)
   \<and> drawn (exportPage ((blankPage ''A'' ''data:image/png'' :: unit page)\<lparr>rotation := 90\<rparr>)
              ''data:image/png;base64'' sizeA4 \<lparr>angle = 0, drawn = []\<rparr>)
       = [\<lparr>dx = 595, dy = 0, dwidth = 842, dheight = 595, drotate = Some 90\<rparr>]"
proof -
  have h1: "''data:image/png;base64'' \<noteq> ''data:,''"
    by simp
  have h2: "sizeA4 (exportSetRotation
                ((blankPage ''A'' ''data:image/png'' :: unit page)\<lparr>rotation := 90\<rparr>)
                \<lparr>angle = 0, drawn = []\<rparr>) = (595, 842)"
    by (simp add: sizeA4_def)
  have r: "rotation ((blankPage ''A'' ''data:image/png'' :: unit page)\<lparr>rotation := 90\<rparr>) = 90"
    by simp
  note inst = export_overlay_placement
      [where getSize = sizeA4 and pdfPage = "\<lparr>angle = 0, drawn = []\<rparr>"
         and pageData = "(blankPage ''A'' ''data:image/png'' :: unit page)\<lparr>rotation := 90\<rparr>",
       OF h1 h2]
  have "drawn (exportPage ((blankPage ''A'' ''data:image/png'' :: unit page)\<lparr>rotation := 90\<rparr>)
              ''data:image/png;base64'' sizeA4 \<lparr>angle = 0, drawn = []\<rparr>)
       = drawn \<lparr>angle = 0, drawn = []\<rparr>
           @ [\<lparr>dx = 595, dy = 0, dwidth = 842, dheight = 595, drotate = Some 90\<rparr>]"
    using inst r by blast
  then show ?thesis
    using h1 h2 by simp
qed

text \<open>
  Claim C4, as the code has it. The angle passed to \<^verbatim>\<open>setRotation\<close> is the plain sum of the
  output page's existing angle and the page's stored rotation. It is congruent to the
  sum modulo 360, and it is the reduced value exactly when the sum lies in \<open>[0, 360)\<close>; no
  reduction is applied.
\<close>

theorem export_rotation_is_sum:
  "angle (exportSetRotation pageData pdfPage) = angle pdfPage + rotation pageData
   \<and> angle (exportSetRotation pageData pdfPage) mod 360
       = (angle pdfPage + rotation pageData) mod 360
   \<and> (0 \<le> angle pdfPage + rotation pageData \<and> angle pdfPage + rotation pageData < 360 \<longrightarrow>
        angle (exportSetRotation pageData pdfPage)
          = (angle pdfPage + rotation pageData) mod 360)"
  by (simp add: exportSetRotation_def Let_def)

theorem export_rotation_is_sum_witness:
  "0 \<le> angle \<lparr>angle = 90, drawn = []\<rparr>
          + rotation ((blankPage ''A'' ''data:image/png'' :: unit page)\<lparr>rotation := 180\<rparr>)
   \<and> angle \<lparr>angle = 90, drawn = []\<rparr>
          + rotation ((blankPage ''A'' ''data:image/png'' :: unit page)\<lparr>rotation := 180\<rparr>) < 360
   \<and> angle (exportSetRotation ((blankPage ''A'' ''data:image/png'' :: unit page)\<lparr>rotation := 180\<rparr>)
              \<lparr>angle = 90, drawn = []\<rparr>) = 270"
  using export_rotation_is_sum
    [of "(blankPage ''A'' ''data:image/png'' :: unit page)\<lparr>rotation := 180\<rparr>"
        "\<lparr>angle = 90, drawn = []\<rparr>"]
  by simp

text \<open>
  The claim as stated (the angle is reduced modulo 360 and stays in \<open>{0, 90, 180, 270}\<close>)
  fails for a source page that already carries a rotation of 270 and was turned once in
  the editor: the angle set is 360.
\<close>

theorem export_rotation_counterexample:
  "angle (exportSetRotation
            \<lparr>pid = ''A'', pdfBytes = Some ''%PDF'', pageNum = 1, thumb = Some ''data:image/png'',
             fabricData = (None :: unit option), pwidth = 1190, pheight = 1684, rotation = 90\<rparr>
            \<lparr>angle = 270, drawn = []\<rparr>) = 360
   \<and> (270 + 90) mod 360 = (0 :: int)
   \<and> angle (exportSetRotation
            \<lparr>pid = ''A'', pdfBytes = Some ''%PDF'', pageNum = 1, thumb = Some ''data:image/png'',
             fabricData = (None :: unit option), pwidth = 1190, pheight = 1684, rotation = 90\<rparr>
            \<lparr>angle = 270, drawn = []\<rparr>) \<notin> {0, 90, 180, 270}"
  by (simp add: exportSetRotation_def Let_def)

section \<open>Mosaic: size of the downsampled image\<close>

lemma makeShape_rect: "makeShape ''rect'' initialProperties 620 877 = Some redRect"
  by (simp add: makeShape_def fabricObject_def redRect_def initialProperties_def)

lemma makeShape_mosaic: "makeShape ''mosaic'' initialProperties 620 877 = Some mosaicObject"
  by (simp add: makeShape_def fabricObject_def mosaicObject_def initialProperties_def)





section \<open>Mosaic: degenerate regions\<close>




section \<open>Style edits: one save for the whole selection\<close>

lemma updateMosaicContent_heap: "heap (updateMosaicContent fab r st) = heap st"
  by (auto simp: updateMosaicContent_def Let_def split: option.splits)

lemma updateMosaicContent_frame:
  "pages (updateMosaicContent fab r st) = pages st"
  "snapshots (updateMosaicContent fab r st) = snapshots st"
  "fabricCanvas (updateMosaicContent fab r st) = fabricCanvas st"
  "currentIndex (updateMosaicContent fab r st) = currentIndex st"
  "isUpdating (updateMosaicContent fab r st) = isUpdating st"
  by (auto simp: updateMosaicContent_def Let_def split: option.splits)

lemma applyStyle_frame:
  "pages (applyStyle fab e r st) = pages st"
  "snapshots (applyStyle fab e r st) = snapshots st"
  "fabricCanvas (applyStyle fab e r st) = fabricCanvas st"
  "currentIndex (applyStyle fab e r st) = currentIndex st"
  "isUpdating (applyStyle fab e r st) = isUpdating st"
  by (cases e; simp add: updateMosaicContent_frame)+

lemma applyStyle_other: "r' \<noteq> r \<Longrightarrow> heap (applyStyle fab e r st) r' = heap st r'"
  by (cases e) (simp_all add: updateMosaicContent_heap)

lemma fold_applyStyle_frame:
  "pages (fold (applyStyle fab e) rs st) = pages st
   \<and> snapshots (fold (applyStyle fab e) rs st) = snapshots st
   \<and> fabricCanvas (fold (applyStyle fab e) rs st) = fabricCanvas st
   \<and> currentIndex (fold (applyStyle fab e) rs st) = currentIndex st
   \<and> isUpdating (fold (applyStyle fab e) rs st) = isUpdating st"
  by (induction rs arbitrary: st) (simp_all add: applyStyle_frame)

lemma fold_applyStyle_outside:
  "r \<notin> set rs \<Longrightarrow> heap (fold (applyStyle fab e) rs st) r = heap st r"
  by (induction rs arbitrary: st) (simp_all add: applyStyle_other)

lemma applyStyle_at:
  "heap (applyStyle fab e r st) r =
     (case e of
        Color v \<Rightarrow> setColor v (heap st r)
      | Opacity v \<Rightarrow> (heap st r)\<lparr>opacity := v\<rparr>
      | Size n \<Rightarrow>
          if isMosaic (heap st r) then (heap st r)\<lparr>mosaicSize := Some n\<rparr>
          else if otype (heap st r) = ''i-text'' then (heap st r)\<lparr>fontSize := n * 4\<rparr>
          else if truthy (stroke (heap st r)) then (heap st r)\<lparr>strokeWidth := n\<rparr>
          else heap st r)"
  by (cases e) (simp_all add: updateMosaicContent_heap)

lemma applyStyle_local:
  "heap st' r = heap st r \<Longrightarrow> heap (applyStyle fab e r st') r = heap (applyStyle fab e r st) r"
  unfolding applyStyle_at by (cases e) simp_all

lemma fold_applyStyle_inside:
  "distinct rs \<Longrightarrow> r \<in> set rs \<Longrightarrow>
   heap (fold (applyStyle fab e) rs st) r = heap (applyStyle fab e r st) r"
proof (induction rs arbitrary: st)
  case Nil
  then show ?case by simp
next
  case (Cons x xs)
  let ?st' = "applyStyle fab e x st"
  show ?case
  proof (cases "r = x")
    case True
    with Cons.prems have "r \<notin> set xs" by simp
    then have "heap (fold (applyStyle fab e) xs ?st') r = heap ?st' r"
      by (rule fold_applyStyle_outside)
    then show ?thesis using True by simp
  next
    case False
    with Cons.prems have mem: "r \<in> set xs" and dist: "distinct xs" by simp_all
    have "heap (fold (applyStyle fab e) (x # xs) st) r = heap (applyStyle fab e r ?st') r"
      using Cons.IH [OF dist mem, of ?st'] by simp
    also have "\<dots> = heap (applyStyle fab e r st) r"
    proof (rule applyStyle_local)
      show "heap ?st' r = heap st r" using False by (rule applyStyle_other)
    qed
    finally show ?thesis .
  qed
qed

lemma fold_opacity_inside:
  "r \<in> set rs \<Longrightarrow>
   heap (fold (applyStyle fab (Opacity v)) rs st) r = (heap st r)\<lparr>opacity := v\<rparr>"
proof (induction rs arbitrary: st)
  case Nil
  then show ?case by simp
next
  case (Cons x xs)
  show ?case
  proof (cases "r \<in> set xs")
    case True
    then show ?thesis
      using Cons.IH [of "applyStyle fab (Opacity v) x st"]
      by (cases "r = x") (simp_all del: applyStyle.simps, simp_all)
  next
    case False
    with Cons.prems have rx: "r = x" by simp
    have "heap (fold (applyStyle fab (Opacity v)) xs (applyStyle fab (Opacity v) x st)) r
            = heap (applyStyle fab (Opacity v) x st) r"
      using False by (rule fold_applyStyle_outside)
    also have "\<dots> = (heap st r)\<lparr>opacity := v\<rparr>"
      using rx by simp
    finally show ?thesis by (simp del: applyStyle.simps)
  qed
qed

lemma saveCurrentState_keeps:
  "heap (saveCurrentState fab st) = heap st"
  "fabricCanvas (saveCurrentState fab st) = fabricCanvas st"
  "currentIndex (saveCurrentState fab st) = currentIndex st"
  by (auto simp: saveCurrentState_def split: option.splits)

lemma saveCurrentState_count:
  "snapshots (saveCurrentState fab st) =
     (if fabricCanvas st \<noteq> None \<and> currentIndex st \<noteq> - 1 \<and> \<not> isUpdating st
         \<and> (\<exists>pg. nth_opt (pages st) (currentIndex st) = Some pg \<and> pid pg \<noteq> []
                \<and> fabricData pg \<noteq> Some (toJSON fab (the (fabricCanvas st)) (heap st)))
      then Suc (snapshots st) else snapshots st)"
  by (auto simp: saveCurrentState_def saveUpdater_def split: option.splits)

lemma saveCurrentState_pages:
  "pages (saveCurrentState fab st) =
     (if fabricCanvas st \<noteq> None \<and> currentIndex st \<noteq> - 1 \<and> \<not> isUpdating st
         \<and> (\<exists>pg. nth_opt (pages st) (currentIndex st) = Some pg \<and> pid pg \<noteq> []
                \<and> fabricData pg \<noteq> Some (toJSON fab (the (fabricCanvas st)) (heap st)))
      then (pages st)[nat (currentIndex st) :=
              (the (nth_opt (pages st) (currentIndex st)))
                \<lparr>fabricData := Some (toJSON fab (the (fabricCanvas st)) (heap st))\<rparr>]
      else pages st)"
  by (auto simp: saveCurrentState_def saveUpdater_def split: option.splits)

text \<open>
  Claim C7, as the code has it. For a selection \<open>rs\<close> of any size, every style edit is
  applied to every selected object: an opacity edit sets the opacity, a colour edit makes
  the three colour assignments of the loop, a size edit sets the block size of a mosaic,
  four times the value as font size of a text, and the stroke width of an object with a
  stroke. No edit touches an object outside the selection. The edit ends in one call of
  \<^verbatim>\<open>saveCurrentState\<close>, so the page store receives at most one snapshot. It receives
  exactly one when a page is active, no load is in flight, the active page has an id and
  the serialized scene differs from the stored one; that snapshot is the scene after all
  objects were updated. Otherwise the page list is unchanged.
\<close>

theorem style_edit_single_save:
  assumes "fabricCanvas st = Some c" and "active c = ActiveSelection rs"
  shows "(\<forall>r\<in>set rs. heap (updateSelectedObject fab (Opacity v) st) r
                        = (heap st r)\<lparr>opacity := v\<rparr>)
       \<and> (distinct rs \<longrightarrow>
            (\<forall>r\<in>set rs. heap (updateSelectedObject fab e st) r =
               (case e of
                  Color col \<Rightarrow> setColor col (heap st r)
                | Opacity op \<Rightarrow> (heap st r)\<lparr>opacity := op\<rparr>
                | Size n \<Rightarrow>
                    if isMosaic (heap st r) then (heap st r)\<lparr>mosaicSize := Some n\<rparr>
                    else if otype (heap st r) = ''i-text''
                    then (heap st r)\<lparr>fontSize := n * 4\<rparr>
                    else if truthy (stroke (heap st r))
                    then (heap st r)\<lparr>strokeWidth := n\<rparr>
                    else heap st r)))
       \<and> (\<forall>r. r \<notin> set rs \<longrightarrow> heap (updateSelectedObject fab e st) r = heap st r)
       \<and> snapshots (updateSelectedObject fab e st) \<le> Suc (snapshots st)
       \<and> (snapshots (updateSelectedObject fab e st) = Suc (snapshots st) \<longleftrightarrow>
            currentIndex st \<noteq> - 1 \<and> \<not> isUpdating st
            \<and> (\<exists>pg. nth_opt (pages st) (currentIndex st) = Some pg \<and> pid pg \<noteq> []
                  \<and> fabricData pg
                      \<noteq> Some (toJSON fab c (heap (updateSelectedObject fab e st)))))
       \<and> (snapshots (updateSelectedObject fab e st) = Suc (snapshots st) \<longrightarrow>
            (\<exists>pg. nth_opt (pages st) (currentIndex st) = Some pg
               \<and> pages (updateSelectedObject fab e st) =
                   (pages st)[nat (currentIndex st) :=
                      pg\<lparr>fabricData :=
                           Some (toJSON fab c (heap (updateSelectedObject fab e st)))\<rparr>]))
       \<and> (snapshots (updateSelectedObject fab e st) \<noteq> Suc (snapshots st) \<longrightarrow>
            pages (updateSelectedObject fab e st) = pages st)"
proof -
  let ?st1 = "st\<lparr>props := setProperty e (props st)\<rparr>"
  let ?st2 = "fold (applyStyle fab e) rs ?st1"
  have upd: "updateSelectedObject fab e' st
      = saveCurrentState fab (fold (applyStyle fab e') rs (st\<lparr>props := setProperty e' (props st)\<rparr>))"
    for e'
    using assms by (simp add: updateSelectedObject_def)
  have frame: "pages ?st2 = pages st" "snapshots ?st2 = snapshots st"
    "fabricCanvas ?st2 = Some c" "currentIndex ?st2 = currentIndex st"
    "isUpdating ?st2 = isUpdating st"
    using fold_applyStyle_frame [of fab e rs ?st1] assms by simp_all
  have hp: "heap (updateSelectedObject fab e st) = heap ?st2"
    by (simp add: upd saveCurrentState_keeps)
  have a: "\<forall>r\<in>set rs. heap (updateSelectedObject fab (Opacity v) st) r
                         = (heap st r)\<lparr>opacity := v\<rparr>"
    by (simp add: upd saveCurrentState_keeps fold_opacity_inside)
  have b: "\<forall>r. r \<notin> set rs \<longrightarrow> heap (updateSelectedObject fab e st) r = heap st r"
    by (simp add: upd saveCurrentState_keeps fold_applyStyle_outside)
  have each: "heap (updateSelectedObject fab e st) r =
               (case e of
                  Color col \<Rightarrow> setColor col (heap st r)
                | Opacity op \<Rightarrow> (heap st r)\<lparr>opacity := op\<rparr>
                | Size n \<Rightarrow>
                    if isMosaic (heap st r) then (heap st r)\<lparr>mosaicSize := Some n\<rparr>
                    else if otype (heap st r) = ''i-text''
                    then (heap st r)\<lparr>fontSize := n * 4\<rparr>
                    else if truthy (stroke (heap st r))
                    then (heap st r)\<lparr>strokeWidth := n\<rparr>
                    else heap st r)"
    if "distinct rs" and "r \<in> set rs" for r
  proof -
    have "heap (updateSelectedObject fab e st) r = heap (applyStyle fab e r ?st1) r"
      unfolding hp using that by (rule fold_applyStyle_inside)
    also have "heap ?st1 r = heap st r" by simp
    then have "heap (applyStyle fab e r ?st1) r = heap (applyStyle fab e r st) r"
      by (rule applyStyle_local)
    finally show ?thesis
      unfolding applyStyle_at .
  qed
  have c: "distinct rs \<longrightarrow>
            (\<forall>r\<in>set rs. heap (updateSelectedObject fab e st) r =
               (case e of
                  Color col \<Rightarrow> setColor col (heap st r)
                | Opacity op \<Rightarrow> (heap st r)\<lparr>opacity := op\<rparr>
                | Size n \<Rightarrow>
                    if isMosaic (heap st r) then (heap st r)\<lparr>mosaicSize := Some n\<rparr>
                    else if otype (heap st r) = ''i-text''
                    then (heap st r)\<lparr>fontSize := n * 4\<rparr>
                    else if truthy (stroke (heap st r))
                    then (heap st r)\<lparr>strokeWidth := n\<rparr>
                    else heap st r))"
    using each by blast
  have cnt: "snapshots (updateSelectedObject fab e st) =
     (if currentIndex st \<noteq> - 1 \<and> \<not> isUpdating st
         \<and> (\<exists>pg. nth_opt (pages st) (currentIndex st) = Some pg \<and> pid pg \<noteq> []
                \<and> fabricData pg \<noteq> Some (toJSON fab c (heap ?st2)))
      then Suc (snapshots st) else snapshots st)"
    unfolding upd saveCurrentState_count frame by auto
  have pgs: "pages (updateSelectedObject fab e st) =
     (if currentIndex st \<noteq> - 1 \<and> \<not> isUpdating st
         \<and> (\<exists>pg. nth_opt (pages st) (currentIndex st) = Some pg \<and> pid pg \<noteq> []
                \<and> fabricData pg \<noteq> Some (toJSON fab c (heap ?st2)))
      then (pages st)[nat (currentIndex st) :=
              (the (nth_opt (pages st) (currentIndex st)))
                \<lparr>fabricData := Some (toJSON fab c (heap ?st2))\<rparr>]
      else pages st)"
    unfolding upd saveCurrentState_pages frame by auto
  have rest: "snapshots (updateSelectedObject fab e st) \<le> Suc (snapshots st)
       \<and> (snapshots (updateSelectedObject fab e st) = Suc (snapshots st) \<longleftrightarrow>
            currentIndex st \<noteq> - 1 \<and> \<not> isUpdating st
            \<and> (\<exists>pg. nth_opt (pages st) (currentIndex st) = Some pg \<and> pid pg \<noteq> []
                  \<and> fabricData pg
                      \<noteq> Some (toJSON fab c (heap (updateSelectedObject fab e st)))))
       \<and> (snapshots (updateSelectedObject fab e st) = Suc (snapshots st) \<longrightarrow>
            (\<exists>pg. nth_opt (pages st) (currentIndex st) = Some pg
               \<and> pages (updateSelectedObject fab e st) =
                   (pages st)[nat (currentIndex st) :=
                      pg\<lparr>fabricData :=
                           Some (toJSON fab c (heap (updateSelectedObject fab e st)))\<rparr>]))
       \<and> (snapshots (updateSelectedObject fab e st) \<noteq> Suc (snapshots st) \<longrightarrow>
            pages (updateSelectedObject fab e st) = pages st)"
  proof (cases "currentIndex st \<noteq> - 1 \<and> \<not> isUpdating st
         \<and> (\<exists>pg. nth_opt (pages st) (currentIndex st) = Some pg \<and> pid pg \<noteq> []
                \<and> fabricData pg \<noteq> Some (toJSON fab c (heap ?st2)))")
    case True
    then show ?thesis
      using cnt pgs unfolding hp by auto
  next
    case False
    then show ?thesis
      using cnt pgs unfolding hp by auto
  qed
  show ?thesis
    by (rule conjI [OF a conjI [OF c conjI [OF b rest]]])
qed

text \<open>
  Three selected rectangles of opacity \<open>1/2\<close> are set to opacity 1: all three change, and
  the store receives one snapshot, which holds the three updated objects. A colour edit
  sets their fill; a size edit leaves a filled rectangle without stroke as it is.
\<close>

theorem style_edit_single_save_witness:
  "fabricCanvas threeSelected
     = Some (pageSurface\<lparr>objects := [1, 2, 3], active := ActiveSelection [1, 2, 3]\<rparr>)
   \<and> active (pageSurface\<lparr>objects := [1, 2, 3], active := ActiveSelection [1, 2, 3]\<rparr>)
     = ActiveSelection [1, 2, 3]
   \<and> heap (updateSelectedObject exampleFabric (Opacity 1) threeSelected) 1 = redRect
   \<and> heap (updateSelectedObject exampleFabric (Opacity 1) threeSelected) 2 = redRect
   \<and> heap (updateSelectedObject exampleFabric (Opacity 1) threeSelected) 3 = redRect
   \<and> snapshots (updateSelectedObject exampleFabric (Opacity 1) threeSelected) = 1
   \<and> map fabricData (pages (updateSelectedObject exampleFabric (Opacity 1) threeSelected))
       = [Some [redRect, redRect, redRect]]
   \<and> distinct [1 :: nat, 2, 3]
   \<and> heap (updateSelectedObject exampleFabric (Color ''#3b82f6'') threeSelected) 2
       = halfRect\<lparr>fill := Some ''#3b82f6''\<rparr>
   \<and> heap (updateSelectedObject exampleFabric (Size 8) threeSelected) 3 = halfRect"
proof -
  have h1: "fabricCanvas threeSelected
     = Some (pageSurface\<lparr>objects := [1, 2, 3], active := ActiveSelection [1, 2, 3]\<rparr>)"
    by (simp add: threeSelected_def)
  have h2: "active (pageSurface\<lparr>objects := [1, 2, 3], active := ActiveSelection [1, 2, 3]\<rparr>)
     = ActiveSelection [1, 2, 3]"
    by simp
  have all: "\<forall>r\<in>set [1, 2, 3].
      heap (updateSelectedObject exampleFabric (Opacity 1) threeSelected) r
        = (heap threeSelected r)\<lparr>opacity := 1\<rparr>"
    using style_edit_single_save [OF h1 h2, of exampleFabric 1 "Opacity 1"]
    by (rule conjunct1)
  have before: "heap threeSelected 1 = halfRect" "heap threeSelected 2 = halfRect"
    "heap threeSelected 3 = halfRect"
    by (simp_all add: threeSelected_def)
  have full: "halfRect\<lparr>opacity := 1\<rparr> = redRect"
    by (simp add: halfRect_def redRect_def)
  have objs: "heap (updateSelectedObject exampleFabric (Opacity 1) threeSelected) 1 = redRect"
    "heap (updateSelectedObject exampleFabric (Opacity 1) threeSelected) 2 = redRect"
    "heap (updateSelectedObject exampleFabric (Opacity 1) threeSelected) 3 = redRect"
    using all before full by simp_all
  have count: "snapshots (updateSelectedObject exampleFabric (Opacity 1) threeSelected) = 1"
    by (simp add: updateSelectedObject_def threeSelected_def pageSurface_def saveCurrentState_def
      saveUpdater_def nth_opt_def exampleFabric_def listObjects_def blankPage_def halfRect_def
      redRect_def)
  have stored: "map fabricData (pages (updateSelectedObject exampleFabric (Opacity 1) threeSelected))
       = [Some [redRect, redRect, redRect]]"
    by (simp add: updateSelectedObject_def threeSelected_def pageSurface_def saveCurrentState_def
      saveUpdater_def nth_opt_def exampleFabric_def listObjects_def blankPage_def halfRect_def
      redRect_def)
  have dist: "distinct [1 :: nat, 2, 3]"
    by simp
  have blue: "setColor ''#3b82f6'' halfRect = halfRect\<lparr>fill := Some ''#3b82f6''\<rparr>"
    by (simp add: setColor_def halfRect_def redRect_def truthy_def Let_def)
  have "\<forall>r\<in>set [1, 2, 3].
      heap (updateSelectedObject exampleFabric (Color ''#3b82f6'') threeSelected) r
        = setColor ''#3b82f6'' (heap threeSelected r)"
    using style_edit_single_save [OF h1 h2, of exampleFabric 1 "Color ''#3b82f6''",
        THEN conjunct2, THEN conjunct1] dist
    by simp
  then have colour: "heap (updateSelectedObject exampleFabric (Color ''#3b82f6'') threeSelected) 2
       = halfRect\<lparr>fill := Some ''#3b82f6''\<rparr>"
    using before blue by simp
  have plain: "isMosaic halfRect = False" "otype halfRect = ''rect''" "stroke halfRect = None"
    by (simp_all add: halfRect_def redRect_def)
  have "\<forall>r\<in>set [1, 2, 3].
      heap (updateSelectedObject exampleFabric (Size 8) threeSelected) r
        = (if isMosaic (heap threeSelected r)
           then (heap threeSelected r)\<lparr>mosaicSize := Some 8\<rparr>
           else if otype (heap threeSelected r) = ''i-text''
           then (heap threeSelected r)\<lparr>fontSize := 8 * 4\<rparr>
           else if truthy (stroke (heap threeSelected r))
           then (heap threeSelected r)\<lparr>strokeWidth := 8\<rparr>
           else heap threeSelected r)"
    using style_edit_single_save [OF h1 h2, of exampleFabric 1 "Size 8",
        THEN conjunct2, THEN conjunct1] dist
    by simp
  then have size: "heap (updateSelectedObject exampleFabric (Size 8) threeSelected) 3 = halfRect"
    using before plain by (simp add: truthy_def)
  show ?thesis
    using h1 h2 objs count stored dist colour size by (intro conjI)
qed

text \<open>
  The claim as stated (every style edit on a selection produces exactly one snapshot)
  fails when the edit leaves the scene as stored: setting opacity \<open>1/2\<close> on three objects
  that have it, or picking the colour they already have, writes nothing.
\<close>

theorem style_edit_snapshot_counterexample:
  "snapshots (updateSelectedObject exampleFabric (Opacity (1 / 2)) threeSelected)
     \<noteq> Suc (snapshots threeSelected)
   \<and> snapshots (updateSelectedObject exampleFabric (Color ''#ef4444'') threeSelected)
     \<noteq> Suc (snapshots threeSelected)"
proof -
  have "snapshots (updateSelectedObject exampleFabric (Opacity (1 / 2)) threeSelected) = 0"
    by (simp add: updateSelectedObject_def threeSelected_def pageSurface_def saveCurrentState_def
      saveUpdater_def nth_opt_def exampleFabric_def listObjects_def blankPage_def halfRect_def)
  moreover
  have "snapshots (updateSelectedObject exampleFabric (Color ''#ef4444'') threeSelected) = 0"
    by (simp add: updateSelectedObject_def threeSelected_def pageSurface_def saveCurrentState_def
      saveUpdater_def nth_opt_def exampleFabric_def listObjects_def blankPage_def halfRect_def
      redRect_def setColor_def truthy_def)
  moreover have "snapshots threeSelected = 0"
    by (simp add: threeSelected_def)
  ultimately show ?thesis by simp
qed

section \<open>Page list: reordering\<close>

lemma saveUpdater_pids:
  "saveUpdater idx pageId json prev = Some new \<Longrightarrow> map pid new = map pid prev"
  by (auto simp: saveUpdater_def nth_opt_def map_update list_update_same_conv
      split: option.splits if_splits)

lemma saveCurrentState_pids:
  "map pid (pages (saveCurrentState fab st)) = map pid (pages st)"
  by (auto simp: saveCurrentState_def saveUpdater_pids split: option.splits)

lemma reorderPages_map:
  "map_option (map f) (reorderPages i j xs) = reorderPages i j (map f xs)"
  by (simp add: reorderPages_def spliceOut_def spliceIn_def take_map drop_map)

lemma reorder_adjacent_down:
  "reorderPages (length as) (Suc (length as)) (as @ a # b # bs) = Some (as @ b # a # bs)"
  by (simp add: reorderPages_def spliceOut_def spliceIn_def)

lemma reorder_adjacent_up:
  "reorderPages (Suc (length as)) (length as) (as @ a # b # bs) = Some (as @ b # a # bs)"
  by (simp add: reorderPages_def spliceOut_def spliceIn_def nth_append)

text \<open>
  The step buttons (\<^verbatim>\<open>movePage(idx, 1)\<close> and \<^verbatim>\<open>movePage(idx, -1)\<close>) exchange two neighbours
  and move the active index with the page it points to.
\<close>

lemma movePage_down_follows_active:
  assumes "map pid (pages st) = as @ a # b # bs"
  shows "map_option (\<lambda>s. (map pid (pages s), currentIndex s)) (movePage fab (length as) 1 st)
         = Some (as @ b # a # bs,
                 if currentIndex st = int (length as) then int (length as) + 1
                 else if currentIndex st = int (length as) + 1 then int (length as)
                 else currentIndex st)"
proof -
  have len: "length (pages st) = length as + 2 + length bs"
    using arg_cong [OF assms, of length] by simp
  have pids: "map pid (pages (saveCurrentState fab st)) = as @ a # b # bs"
    using assms by (simp add: saveCurrentState_pids)
  have "map_option (map pid)
          (reorderPages (length as) (Suc (length as)) (pages (saveCurrentState fab st)))
          = Some (as @ b # a # bs)"
    unfolding reorderPages_map pids by (rule reorder_adjacent_down)
  then obtain new
    where new: "reorderPages (length as) (Suc (length as)) (pages (saveCurrentState fab st))
                  = Some new"
      and newp: "map pid new = as @ b # a # bs"
    by (cases "reorderPages (length as) (Suc (length as)) (pages (saveCurrentState fab st))") auto
  have to: "nat (int (length as) + 1) = Suc (length as)" by simp
  show ?thesis
    unfolding movePage_def Let_def to using len new newp by (simp add: nat_add_distrib)
qed

lemma movePage_up_follows_active:
  assumes "map pid (pages st) = as @ a # b # bs"
  shows "map_option (\<lambda>s. (map pid (pages s), currentIndex s))
           (movePage fab (Suc (length as)) (- 1) st)
         = Some (as @ b # a # bs,
                 if currentIndex st = int (length as) + 1 then int (length as)
                 else if currentIndex st = int (length as) then int (length as) + 1
                 else currentIndex st)"
proof -
  have len: "length (pages st) = length as + 2 + length bs"
    using arg_cong [OF assms, of length] by simp
  have pids: "map pid (pages (saveCurrentState fab st)) = as @ a # b # bs"
    using assms by (simp add: saveCurrentState_pids)
  have "map_option (map pid)
          (reorderPages (Suc (length as)) (length as) (pages (saveCurrentState fab st)))
          = Some (as @ b # a # bs)"
    unfolding reorderPages_map pids by (rule reorder_adjacent_up)
  then obtain new
    where new: "reorderPages (Suc (length as)) (length as) (pages (saveCurrentState fab st))
                  = Some new"
      and newp: "map pid new = as @ b # a # bs"
    by (cases "reorderPages (Suc (length as)) (length as) (pages (saveCurrentState fab st))") auto
  have to: "nat (int (Suc (length as)) + - 1) = length as" by simp
  show ?thesis
    unfolding movePage_def Let_def to using len new newp by simp
qed

text \<open>Page A of [A, B, C], stepped down twice, ends at index 2 and is still the active page.\<close>

lemma movePage_twice_keeps_active:
  "map_option (\<lambda>s. (map pid (pages s), currentIndex s))
     (case movePage exampleFabric 0 1 threePages of
        None \<Rightarrow> None
      | Some s \<Rightarrow> movePage exampleFabric 1 1 s)
   = Some ([''B'', ''C'', ''A''], 2)"
  by (simp add: movePage_def threePages_def reorderPages_def spliceOut_def spliceIn_def
      blankPage_def saveCurrentState_def saveUpdater_def nth_opt_def exampleFabric_def
      listObjects_def pageSurface_def Let_def)

text \<open>
  Claim C8 on the drag path. Pages [A, B, C] with A active (index 0); A is dropped on the
  slot at index 2. The list becomes [B, C, A] as claimed, but \<^verbatim>\<open>onDrop\<close> never calls
  \<^verbatim>\<open>setCurrentIndex\<close>: the active index stays 0, where page B now stands.
\<close>

theorem drag_reorder_keeps_stale_index:
  "onDrop 2 threePages =
     Some (threePages\<lparr>pages := [blankPage ''B'' ''data:image/png'',
                                blankPage ''C'' ''data:image/png'',
                                blankPage ''A'' ''data:image/png''],
                      draggedIndex := None, dropTargetIndex := None\<rparr>)
   \<and> currentIndex threePages = 0
   \<and> map_option pid (nth_opt (pages threePages) (currentIndex threePages)) = Some ''A''
   \<and> map_option pid (nth_opt [blankPage ''B'' ''data:image/png'' :: (scene_object list) page,
                               blankPage ''C'' ''data:image/png'',
                               blankPage ''A'' ''data:image/png'']
                        (currentIndex threePages)) = Some ''B''"
  by (simp add: onDrop_def threePages_def reorderPages_def spliceOut_def spliceIn_def
      blankPage_def nth_opt_def)

section \<open>Page list: removal and the page-load guard\<close>

lemma filter_enumerate_above:
  "idx < n \<Longrightarrow> map snd (filter (\<lambda>(i, pg). i \<noteq> idx) (enumerate n xs)) = xs"
  by (induction xs arbitrary: n) auto

lemma filter_enumerate_drop:
  "n \<le> idx \<Longrightarrow>
   map snd (filter (\<lambda>(i, pg). i \<noteq> idx) (enumerate n xs))
     = take (idx - n) xs @ drop (Suc (idx - n)) xs"
proof (induction xs arbitrary: n)
  case Nil
  then show ?case by simp
next
  case (Cons x xs)
  show ?case
  proof (cases "n = idx")
    case True
    then show ?thesis by (simp add: filter_enumerate_above)
  next
    case False
    with Cons.prems have "Suc n \<le> idx" by simp
    then show ?thesis
      using Cons.IH [of "Suc n"] False Cons.prems by (simp add: Suc_diff_Suc take_Cons')
  qed
qed

text \<open>
  Claim C10. The delete button removes the page at \<open>idx\<close> and nothing else: the active
  index is what it was, for every list and every position. When the active index then
  lies outside the list, the page-load effect returns at its guard and the state, the
  editing surface included, is unchanged.
\<close>

theorem remove_page_keeps_active_index:
  "currentIndex (removePage idx st) = currentIndex st
   \<and> pages (removePage idx st) = take idx (pages st) @ drop (Suc idx) (pages st)
   \<and> (currentIndex st < 0 \<or> int (length (pages (removePage idx st))) \<le> currentIndex st
        \<longrightarrow> pageLoadEffect (removePage idx st) = removePage idx st)"
  using filter_enumerate_drop [of 0 idx "pages st"]
  by (auto simp: removePage_def pageLoadEffect_def nth_opt_def)

text \<open>Two pages, the last one active and removed: index 1 now points past the list.\<close>

theorem remove_page_keeps_active_index_witness:
  "currentIndex (removePage 1 staleMosaic) = 1
   \<and> map pid (pages (removePage 1 staleMosaic)) = [''A'']
   \<and> int (length (pages (removePage 1 staleMosaic))) \<le> currentIndex staleMosaic
   \<and> pageLoadEffect (removePage 1 staleMosaic) = removePage 1 staleMosaic"
proof -
  have idx: "currentIndex staleMosaic = 1"
    by (simp add: staleMosaic_def)
  have len: "length (pages staleMosaic) = 2"
    by (simp add: staleMosaic_def)
  note inst = remove_page_keeps_active_index [of 1 staleMosaic]
  have a: "currentIndex (removePage 1 staleMosaic) = 1"
    using inst idx by simp
  have b: "pages (removePage 1 staleMosaic)
             = take 1 (pages staleMosaic) @ drop 2 (pages staleMosaic)"
    using inst by (simp add: numeral_2_eq_2)
  have c: "map pid (pages (removePage 1 staleMosaic)) = [''A'']"
    unfolding b by (simp add: staleMosaic_def blankPage_def)
  have d: "int (length (pages (removePage 1 staleMosaic))) \<le> currentIndex staleMosaic"
    unfolding b idx by (simp add: len)
  have e: "pageLoadEffect (removePage 1 staleMosaic) = removePage 1 staleMosaic"
    using inst d by blast
  show ?thesis using a c d e by (intro conjI)
qed

section \<open>Deferred writes\<close>

text \<open>
  Claim C9, as the code has it. The updater of a scene snapshot runs on the page list of
  its own moment and writes nothing when no page stands at the index it was given or
  that page has another id. A mosaic bake has no test of that kind: the timer callback
  asks only for a surface and a mosaic flag and, for a region of positive size, starts
  the image load; the load's callback writes the baked pixels to its object. Neither
  looks at the objects of the surface.
\<close>

theorem deferred_write_guards:
  "(nth_opt prev idx = None \<longrightarrow> saveUpdater idx pageId json prev = None)
   \<and> (\<forall>p. nth_opt prev idx = Some p \<and> pid p \<noteq> pageId
          \<longrightarrow> saveUpdater idx pageId json prev = None)
   \<and> element (heap (imgOnload pl st) (target pl)) =
       Some (Baked (captured pl) (fst (liveSmallDims (captured pl) (heap st (target pl))))
               (snd (liveSmallDims (captured pl) (heap st (target pl))))
               (rwidth (captured pl)) (rheight (captured pl)))
   \<and> (fabricCanvas st \<noteq> None \<and> isMosaic (heap st r)
        \<and> 0 < rwidth (getBoundingRect fab ((heap st r)\<lparr>visible := False\<rparr>))
        \<and> 0 < rheight (getBoundingRect fab ((heap st r)\<lparr>visible := False\<rparr>))
      \<longrightarrow> pendingLoads (updateMosaicContent fab r st) =
            pendingLoads st @ [\<lparr>target = r,
               captured = getBoundingRect fab ((heap st r)\<lparr>visible := False\<rparr>)\<rparr>])"
  by (auto simp: saveUpdater_def imgOnload_def updateMosaicContent_def Let_def
      split: option.splits prod.splits)

text \<open>
  A snapshot of page B at index 1 that resolves after B was removed, and a snapshot of
  page A at index 0 that resolves after A was removed (B now stands at 0): both are
  dropped.
\<close>

theorem deferred_write_guards_witness:
  "nth_opt (pages (removePage 1 staleMosaic)) 1 = None
   \<and> saveUpdater 1 ''B'' [] (pages (removePage 1 staleMosaic)) = None
   \<and> nth_opt (pages (removePage 0 staleMosaic)) 0 = Some (blankPage ''B'' ''data:image/png'')
   \<and> pid (blankPage ''B'' ''data:image/png'' :: (scene_object list) page) \<noteq> ''A''
   \<and> saveUpdater 0 ''A'' [] (pages (removePage 0 staleMosaic)) = None"
proof -
  have p1: "pages (removePage 1 staleMosaic) = [blankPage ''A'' ''data:image/png'']"
    by (simp add: removePage_def staleMosaic_def)
  have p0: "pages (removePage 0 staleMosaic) = [blankPage ''B'' ''data:image/png'']"
    by (simp add: removePage_def staleMosaic_def)
  have a: "nth_opt (pages (removePage 1 staleMosaic)) 1 = None"
    unfolding p1 by (simp add: nth_opt_def)
  have b: "nth_opt (pages (removePage 0 staleMosaic)) 0
             = Some (blankPage ''B'' ''data:image/png'')"
    unfolding p0 by (simp add: nth_opt_def)
  have c: "pid (blankPage ''B'' ''data:image/png'' :: (scene_object list) page) \<noteq> ''A''"
    by (simp add: blankPage_def)
  note inst1 = deferred_write_guards [of "pages (removePage 1 staleMosaic)" 1 "''B''" "[]"]
  note inst0 = deferred_write_guards [of "pages (removePage 0 staleMosaic)" 0 "''A''" "[]"]
  have d: "saveUpdater 1 ''B'' [] (pages (removePage 1 staleMosaic)) = None"
    using inst1 a by blast
  have e: "saveUpdater 0 ''A'' [] (pages (removePage 0 staleMosaic)) = None"
    using inst0 b c by blast
  show ?thesis using a b c d e by (intro conjI)
qed

text \<open>
  The claim as stated (every deferred bake first checks that its target still exists)
  fails for a mosaic that is no longer on the surface: the timer callback starts the load
  and the load's callback replaces the pixel content of the object.
\<close>

theorem stale_bake_counterexample:
  "fabricCanvas staleMosaic = Some pageSurface
   \<and> 7 \<notin> set (objects pageSurface)
   \<and> element (heap staleMosaic 7) = Some (Blank 200 120)
   \<and> pendingLoads (updateMosaicContent exampleFabric 7 staleMosaic)
       = [\<lparr>target = 7, captured = \<lparr>rleft = 519, rtop = 816, rwidth = 202, rheight = 122\<rparr>\<rparr>]
   \<and> element (heap (imgOnload \<lparr>target = 7,
                  captured = \<lparr>rleft = 519, rtop = 816, rwidth = 202, rheight = 122\<rparr>\<rparr>
                (updateMosaicContent exampleFabric 7 staleMosaic)) 7)
       = Some (Baked \<lparr>rleft = 519, rtop = 816, rwidth = 202, rheight = 122\<rparr> 40 24 202 122)"
  by (simp add: staleMosaic_def pageSurface_def updateMosaicContent_def imgOnload_def
      liveSmallDims_def mosaicSizeOr10_def exampleFabric_def strokeBox_def mosaicObject_def Let_def)

end
